theory Spec2Isabelle
  imports Complex_Main
begin

section \<open>Data model\<close>

text \<open>
  The development embeds the two translation units of the plugin: the force object
  \<open>ConcertedRMSDForce\<close> (reference positions and particle selection, with their setters)
  and its implementation object \<open>ConcertedRMSDForceImpl\<close> (\<open>initialize\<close>,
  \<open>computeForce\<close>, \<open>updateParametersInContext\<close>).

  Conventions of the embedding.
  \<^item> A C++ \<open>double\<close> is a value of a type \<open>'d\<close>, a parameter of the whole development.
    The operations \<open>+\<close>, \<open>-\<close>, unary \<open>-\<close>, \<open>*\<close>, \<open>/\<close>, \<open><\<close>, \<open>\<le>\<close> and the constant \<open>0\<close>
    are those of the type, taken through the classes \<open>plus\<close>, \<open>minus\<close>, \<open>uminus\<close>,
    \<open>times\<close>, \<open>inverse\<close>, \<open>ord\<close> and \<open>zero\<close>.  These classes name an operation and state no
    law: nothing is assumed about rounding, associativity, order or special values.  The
    binary64 numbers with their rounded operations are one such type, the real numbers
    with the exact operations another.  Each operation of the model is one operation of
    the source, with the operands in the source's order.
  \<^item> What the source takes from its platform besides these operations is gathered in a
    record \<open>platform\<close>: the conversion of an \<open>int\<close> to a \<open>double\<close>, the literal
    \<open>1e-20\<close>, \<open>sqrt\<close>, and the division of a \<open>Vec3\<close> by a \<open>double\<close> (\<open>Vec3\<close> is a class of
    the host library, outside the repository).  The general theorems hold for every type
    \<open>'d\<close> and every platform.  Evaluations at a concrete input are made on the real
    numbers with the exact operations, \<open>exactArithmetic\<close>; where such an evaluation reads
    a computed number, every value that occurs in it is a small multiple of a power of
    1/2, on which binary64 computes the same.
  \<^item> \<open>std::vector<T>\<close> is a list; \<open>v[i]\<close> outside the vector is undefined behaviour in
    C++ and is the outcome \<open>OutOfBounds\<close> of the model.
  \<^item> A thrown \<open>OpenMMException\<close> is the outcome \<open>OpenMMException msg\<close>, with the
    message the code builds.  An operation returns its outcome together with the object
    state at the moment it returned or threw, so that what a failing call has already
    assigned is visible.
  \<^item> The calls into the host (\<open>CustomCPPForceImpl::initialize\<close>,
    \<open>context.systemChanged()\<close>) do not touch the three fields and are left out; the
    host's \<open>system.getNumParticles()\<close> is the parameter \<open>systemSize\<close>.
\<close>

datatype 'd Vec3 = Vec3 'd 'd 'd

text \<open>\<open>Vec3::operator[]\<close>, for the indices 0, 1, 2 that the code uses.\<close>

fun vnth :: "'d Vec3 \<Rightarrow> nat \<Rightarrow> 'd" where
  "vnth (Vec3 x y z) i = (if i = 0 then x else if i = 1 then y else z)"

text \<open>The componentwise operators of \<open>Vec3\<close> and its \<open>dot\<close>.\<close>

fun vadd :: "('d::plus) Vec3 \<Rightarrow> 'd Vec3 \<Rightarrow> 'd Vec3" where
  "vadd (Vec3 a b c) (Vec3 x y z) = Vec3 (a + x) (b + y) (c + z)"

fun vsub :: "('d::minus) Vec3 \<Rightarrow> 'd Vec3 \<Rightarrow> 'd Vec3" where
  "vsub (Vec3 a b c) (Vec3 x y z) = Vec3 (a - x) (b - y) (c - z)"

fun vneg :: "('d::uminus) Vec3 \<Rightarrow> 'd Vec3" where
  "vneg (Vec3 a b c) = Vec3 (- a) (- b) (- c)"

fun dot :: "('d::{plus,times}) Vec3 \<Rightarrow> 'd Vec3 \<Rightarrow> 'd" where
  "dot (Vec3 a b c) (Vec3 x y z) = a * x + b * y + c * z"

text \<open>What else the source takes from its platform:
  \<open>fromInt\<close> converts an \<open>int\<close> operand (\<open>numParticles\<close>, the literal \<open>2\<close>) to a \<open>double\<close>;
  \<open>threshold\<close> is the literal \<open>1e-20\<close>; \<open>squareRoot\<close> is \<open>sqrt\<close>; \<open>scalarDiv\<close> is
  \<open>Vec3::operator/\<close> and \<open>operator/=\<close> with a \<open>double\<close> divisor.\<close>

record 'd platform =
  fromInt :: "int \<Rightarrow> 'd"
  threshold :: 'd
  squareRoot :: "'d \<Rightarrow> 'd"
  scalarDiv :: "'d Vec3 \<Rightarrow> 'd \<Rightarrow> 'd Vec3"

text \<open>The real numbers with the exact operations.\<close>

definition exactArithmetic :: "real platform" where
  "exactArithmetic =
     \<lparr>fromInt = of_int, threshold = 1 / 10 ^ 20, squareRoot = sqrt,
      scalarDiv = (\<lambda>v s. Vec3 (vnth v 0 / s) (vnth v 1 / s) (vnth v 2 / s))\<rparr>"

text \<open>The force object: the two fields read through \<open>getReferencePositions\<close> and
  \<open>getParticles\<close>.\<close>

record 'd ConcertedRMSDForce =
  getReferencePositions :: "'d Vec3 list"
  getParticles :: "int list"

definition ConcertedRMSDForce :: "'d Vec3 list \<Rightarrow> int list \<Rightarrow> 'd ConcertedRMSDForce" where
  "ConcertedRMSDForce referencePositions particles =
     \<lparr>getReferencePositions = referencePositions, getParticles = particles\<rparr>"

definition setReferencePositions :: "'d Vec3 list \<Rightarrow> 'd ConcertedRMSDForce \<Rightarrow> 'd ConcertedRMSDForce" where
  "setReferencePositions positions owner = owner\<lparr>getReferencePositions := positions\<rparr>"

definition setParticles :: "int list \<Rightarrow> 'd ConcertedRMSDForce \<Rightarrow> 'd ConcertedRMSDForce" where
  "setParticles particles owner = owner\<lparr>getParticles := particles\<rparr>"

text \<open>The implementation object's own fields.\<close>

record 'd ConcertedRMSDForceImpl =
  particles :: "int list"
  numParticles :: nat
  referencePos :: "'d Vec3 list"

datatype failure = OpenMMException string | OutOfBounds

section \<open>Printing an index into a message\<close>

text \<open>\<open>msg << i\<close> for an \<open>int\<close>: decimal digits, with a minus sign for a negative value.\<close>

definition digit :: "nat \<Rightarrow> char" where
  "digit d = ''0123456789'' ! d"

fun string_of_nat :: "nat \<Rightarrow> string" where
  "string_of_nat n =
     (if n < 10 then [digit n] else string_of_nat (n div 10) @ [digit (n mod 10)])"

definition string_of_int :: "int \<Rightarrow> string" where
  "string_of_int i = (if i < 0 then CHR ''-'' # string_of_nat (nat (- i)) else string_of_nat (nat i))"

declare string_of_nat.simps [simp del]

section \<open>Configuration: \<open>initialize\<close> and \<open>updateParametersInContext\<close>\<close>

text \<open>The validation loop of \<open>initialize\<close> over \<open>particles\<close>, with the set
  \<open>distinctParticles\<close> of the indices seen so far.  It yields the exception thrown, if any.\<close>

fun checkParticles :: "nat \<Rightarrow> int list \<Rightarrow> int set \<Rightarrow> failure option" where
  "checkParticles systemSize [] distinctParticles = None"
| "checkParticles systemSize (i # rest) distinctParticles =
     (if i < 0 \<or> i \<ge> int systemSize then
        Some (OpenMMException (''ConcertedRMSDForce: Illegal particle index for RMSD: '' @ string_of_int i))
      else if i \<in> distinctParticles then
        Some (OpenMMException (''ConcertedRMSDForce: Duplicated particle index for RMSD: '' @ string_of_int i))
      else checkParticles systemSize rest (insert i distinctParticles))"

text \<open>The loop \<open>for (int i : particles) center += pos[i]\<close>; \<open>None\<close> when some
  \<open>pos[i]\<close> is outside the vector.\<close>

fun sumPositions :: "('d::plus) Vec3 list \<Rightarrow> int list \<Rightarrow> 'd Vec3 \<Rightarrow> 'd Vec3 option" where
  "sumPositions pos [] center = Some center"
| "sumPositions pos (i # rest) center =
     (if 0 \<le> i \<and> nat i < length pos then sumPositions pos rest (vadd center (pos ! nat i))
      else None)"

text \<open>The recentering block, which \<open>initialize\<close> and \<open>updateParametersInContext\<close>
  both end with, statement for statement: \<open>center\<close> starts at \<open>(0, 0, 0)\<close>, the loop adds
  the selected positions, \<open>center /= numParticles\<close>, then
  \<open>for (Vec3& p : referencePos) p -= center\<close> over the whole vector.\<close>

definition recenter ::
  "'d platform \<Rightarrow> ('d::{zero,plus,minus}) ConcertedRMSDForceImpl
     \<Rightarrow> failure option \<times> 'd ConcertedRMSDForceImpl" where
  "recenter P st =
     (case sumPositions (referencePos st) (particles st) (Vec3 0 0 0) of
        None \<Rightarrow> (Some OutOfBounds, st)
      | Some centerSum \<Rightarrow>
          (let center = scalarDiv P centerSum (fromInt P (int (numParticles st)))
           in (None, st\<lparr>referencePos := map (\<lambda>p. vsub p center) (referencePos st)\<rparr>)))"

definition initialize ::
  "'d platform \<Rightarrow> ('d::{zero,plus,minus}) ConcertedRMSDForce \<Rightarrow> nat \<Rightarrow> 'd ConcertedRMSDForceImpl
     \<Rightarrow> failure option \<times> 'd ConcertedRMSDForceImpl" where
  "initialize P owner systemSize st =
     (if length (getReferencePositions owner) \<noteq> systemSize then
        (Some (OpenMMException
           ''RMSDForce: Number of reference positions does not equal number of particles in the System''), st)
      else
        (let st1 = st\<lparr>particles := getParticles owner\<rparr>;
             st2 = st1\<lparr>numParticles := length (particles st1)\<rparr>
         in case checkParticles systemSize (particles st2) {} of
              Some e \<Rightarrow> (Some e, st2)
            | None \<Rightarrow> recenter P (st2\<lparr>referencePos := getReferencePositions owner\<rparr>)))"

definition updateParametersInContext ::
  "'d platform \<Rightarrow> ('d::{zero,plus,minus}) ConcertedRMSDForce \<Rightarrow> 'd ConcertedRMSDForceImpl
     \<Rightarrow> failure option \<times> 'd ConcertedRMSDForceImpl" where
  "updateParametersInContext P owner st =
     (if length (referencePos st) \<noteq> length (getReferencePositions owner) then
        (Some (OpenMMException
           ''updateParametersInContext: The number of reference positions has changed''), st)
      else
        (let st1 = st\<lparr>particles := getParticles owner\<rparr>;
             st2 = (if length (particles st1) = 0
                    then st1\<lparr>particles := map int [0..<length (referencePos st1)]\<rparr>
                    else st1);
             st3 = st2\<lparr>numParticles := length (particles st2)\<rparr>
         in recenter P (st3\<lparr>referencePos := getReferencePositions owner\<rparr>)))"

section \<open>\<open>computeForce\<close>\<close>

text \<open>
  \<open>JAMA::Eigenvalue<double>\<close> is a library outside the repository.  It enters the model as
  a parameter \<open>eigen\<close>: a function from the 4x4 matrix \<open>F\<close> (a list of four rows) to the
  pair of \<open>getRealEigenvalues\<close> (four numbers) and \<open>getV\<close> (a 4x4 matrix whose column
  \<open>j\<close> goes with the \<open>j\<close>-th number).  The code reads \<open>values[3]\<close> and column 3.
\<close>

type_synonym 'd eigensolver = "'d list list \<Rightarrow> 'd list \<times> 'd list list"

text \<open>\<open>centeredPos[i] = positions[particles[i]] - center\<close> for \<open>i < numParticles\<close>.\<close>

definition centeredPositions ::
  "('d::minus) ConcertedRMSDForceImpl \<Rightarrow> 'd Vec3 list \<Rightarrow> 'd Vec3 \<Rightarrow> 'd Vec3 list" where
  "centeredPositions st positions center =
     map (\<lambda>i. vsub (positions ! nat (particles st ! i)) center) [0..<numParticles st]"

text \<open>The innermost loop of the correlation matrix: \<open>R[i][j]\<close>, starting at 0 and
  accumulated over \<open>k\<close>.\<close>

definition correlation ::
  "('d::{zero,plus,times}) ConcertedRMSDForceImpl \<Rightarrow> 'd Vec3 list \<Rightarrow> nat \<Rightarrow> nat \<Rightarrow> 'd" where
  "correlation st centeredPos i j =
     fold (\<lambda>k r. r + vnth (centeredPos ! k) i * vnth (referencePos st ! nat (particles st ! k)) j)
          [0..<numParticles st] 0"

definition correlationMatrix ::
  "('d::{zero,plus,times}) ConcertedRMSDForceImpl \<Rightarrow> 'd Vec3 list \<Rightarrow> 'd list list" where
  "correlationMatrix st centeredPos =
     map (\<lambda>i. map (\<lambda>j. correlation st centeredPos i j) [0, 1, 2]) [0, 1, 2]"

text \<open>The sixteen assignments to \<open>F\<close>, gathered row by row.\<close>

definition Fmatrix :: "('d::{plus,minus,uminus}) list list \<Rightarrow> 'd list list" where
  "Fmatrix R =
     [[R!0!0 + R!1!1 + R!2!2, R!1!2 - R!2!1, R!2!0 - R!0!2, R!0!1 - R!1!0],
      [R!1!2 - R!2!1, R!0!0 - R!1!1 - R!2!2, R!0!1 + R!1!0, R!0!2 + R!2!0],
      [R!2!0 - R!0!2, R!0!1 + R!1!0, - (R!0!0) + R!1!1 - R!2!2, R!1!2 + R!2!1],
      [R!0!1 - R!1!0, R!0!2 + R!2!0, R!1!2 + R!2!1, - (R!0!0) - R!1!1 + R!2!2]]"

text \<open>The loop that accumulates \<open>sum\<close>, starting at 0.\<close>

definition squaredNorms ::
  "('d::{zero,plus,times}) ConcertedRMSDForceImpl \<Rightarrow> 'd Vec3 list \<Rightarrow> 'd" where
  "squaredNorms st centeredPos =
     fold (\<lambda>i s. s + (dot (centeredPos ! i) (centeredPos ! i)
                       + dot (referencePos st ! nat (particles st ! i))
                             (referencePos st ! nat (particles st ! i))))
          [0..<numParticles st] 0"

text \<open>\<open>msd = (sum - 2*values[3])/numParticles\<close>, from the centre of the current positions.\<close>

definition msdOf ::
  "'d platform \<Rightarrow> 'd eigensolver \<Rightarrow> ('d::{zero,plus,minus,uminus,times,inverse}) ConcertedRMSDForceImpl
     \<Rightarrow> 'd Vec3 list \<Rightarrow> 'd Vec3 \<Rightarrow> 'd" where
  "msdOf P eigen st positions center =
     (let centeredPos = centeredPositions st positions center;
          F = Fmatrix (correlationMatrix st centeredPos);
          values = fst (eigen F);
          sum = squaredNorms st centeredPos
      in (sum - fromInt P 2 * values ! 3) / fromInt P (int (numParticles st)))"

definition rotationMatrix :: "'d platform \<Rightarrow> ('d::{plus,minus,times}) list \<Rightarrow> 'd list list" where
  "rotationMatrix P q =
     (let q00 = q!0 * q!0; q01 = q!0 * q!1; q02 = q!0 * q!2; q03 = q!0 * q!3;
          q11 = q!1 * q!1; q12 = q!1 * q!2; q13 = q!1 * q!3;
          q22 = q!2 * q!2; q23 = q!2 * q!3;
          q33 = q!3 * q!3
      in [[q00 + q11 - q22 - q33, fromInt P 2 * (q12 - q03), fromInt P 2 * (q13 + q02)],
          [fromInt P 2 * (q12 + q03), q00 - q11 + q22 - q33, fromInt P 2 * (q23 - q01)],
          [fromInt P 2 * (q13 - q02), fromInt P 2 * (q23 + q01), q00 - q11 - q22 + q33]])"

definition rotatedRef :: "('d::{plus,times}) list list \<Rightarrow> 'd Vec3 \<Rightarrow> 'd Vec3" where
  "rotatedRef U p =
     Vec3 (U!0!0 * vnth p 0 + U!1!0 * vnth p 1 + U!2!0 * vnth p 2)
          (U!0!1 * vnth p 0 + U!1!1 * vnth p 1 + U!2!1 * vnth p 2)
          (U!0!2 * vnth p 0 + U!1!2 * vnth p 1 + U!2!2 * vnth p 2)"

text \<open>The last loop: \<open>forces[particles[i]] = -(centeredPos[i] - rotatedRef) / (rmsd*numParticles)\<close>.\<close>

definition writeForces ::
  "'d platform \<Rightarrow> ('d::{plus,minus,uminus,times}) ConcertedRMSDForceImpl \<Rightarrow> 'd Vec3 list
     \<Rightarrow> 'd list list \<Rightarrow> 'd \<Rightarrow> 'd Vec3 list \<Rightarrow> 'd Vec3 list" where
  "writeForces P st centeredPos U rmsd forces =
     fold (\<lambda>i f. f[nat (particles st ! i) :=
                     scalarDiv P (vneg (vsub (centeredPos ! i)
                                             (rotatedRef U (referencePos st ! nat (particles st ! i)))))
                                 (rmsd * fromInt P (int (numParticles st)))])
          [0..<numParticles st] forces"

text \<open>The reads \<open>particles[k]\<close> for \<open>k < numParticles\<close> stay inside \<open>particles\<close>, and the
  indices read there stay inside a vector of length \<open>n\<close>.\<close>

definition selectionInside :: "'d ConcertedRMSDForceImpl \<Rightarrow> nat \<Rightarrow> bool" where
  "selectionInside st n \<longleftrightarrow>
     numParticles st \<le> length (particles st)
     \<and> (\<forall>i\<in>set (take (numParticles st) (particles st)). 0 \<le> i \<and> nat i < n)"

text \<open>
  \<open>computeForce\<close> returns the energy and the \<open>forces\<close> vector as it leaves it, or
  \<open>OutOfBounds\<close> when one of its subscripts leaves a vector: \<open>positions[i]\<close> in the first
  loop, \<open>particles[k]\<close> and \<open>referencePos[index]\<close> in the loops to \<open>numParticles\<close>,
  \<open>forces[particles[i]]\<close> in the last loop, which the early return skips.
\<close>

definition computeForce ::
  "'d platform \<Rightarrow> 'd eigensolver \<Rightarrow> ('d::{zero,plus,minus,uminus,times,inverse,ord}) ConcertedRMSDForceImpl
     \<Rightarrow> 'd Vec3 list \<Rightarrow> 'd Vec3 list \<Rightarrow> failure + ('d \<times> 'd Vec3 list)" where
  "computeForce P eigen st positions forces =
     (case sumPositions positions (particles st) (Vec3 0 0 0) of
        None \<Rightarrow> Inl OutOfBounds
      | Some centerSum \<Rightarrow>
          if \<not> selectionInside st (length (referencePos st)) then Inl OutOfBounds
          else
            (let center = scalarDiv P centerSum (fromInt P (int (numParticles st)));
                 centeredPos = centeredPositions st positions center;
                 msd = msdOf P eigen st positions center
             in if msd < threshold P then Inr (0, forces)
                else
                  (let rmsd = squareRoot P msd;
                       vectors = snd (eigen (Fmatrix (correlationMatrix st centeredPos)));
                       q = [vectors!0!3, vectors!1!3, vectors!2!3, vectors!3!3];
                       U = rotationMatrix P q
                   in if \<not> selectionInside st (length forces) then Inl OutOfBounds
                      else Inr (rmsd, writeForces P st centeredPos U rmsd forces))))"

section \<open>The quantities of the specification\<close>

text \<open>
  The definitions of this section follow the specification's wording, not the code; the
  theorems compare the two.  A sum \<open>\<Sum>\<^sub>k t\<^sub>k\<close> over the selected particles is read in the
  arithmetic of the platform: it starts at 0 and adds the terms in the order of the
  selection.  \<open>centeredCurrent\<close> and \<open>centeredReference\<close> run over the selection, in its
  order.
\<close>

definition centroid :: "'d platform \<Rightarrow> ('d::{zero,plus}) Vec3 list \<Rightarrow> int list \<Rightarrow> 'd Vec3" where
  "centroid P pos sel =
     scalarDiv P (foldl vadd (Vec3 0 0 0) (map (\<lambda>i. pos ! nat i) sel)) (fromInt P (int (length sel)))"

definition centeredCurrent ::
  "'d platform \<Rightarrow> ('d::{zero,plus,minus}) Vec3 list \<Rightarrow> int list \<Rightarrow> 'd Vec3 list" where
  "centeredCurrent P positions sel =
     map (\<lambda>i. vsub (positions ! nat i) (centroid P positions sel)) sel"

definition centeredReference :: "'d ConcertedRMSDForceImpl \<Rightarrow> 'd Vec3 list" where
  "centeredReference st = map (\<lambda>i. referencePos st ! nat i) (particles st)"

text \<open>\<open>R[i][j] = \<Sum>\<^sub>k centeredCurrent[k][i] * centeredReference[k][j]\<close>.\<close>

definition specR :: "('d::{zero,plus,times}) Vec3 list \<Rightarrow> 'd Vec3 list \<Rightarrow> 'd list list" where
  "specR cc cr =
     map (\<lambda>i. map (\<lambda>j. foldl (\<lambda>r k. r + vnth (cc ! k) i * vnth (cr ! k) j) 0 [0..<length cc])
                   [0, 1, 2])
         [0, 1, 2]"

text \<open>\<open>\<Sum>\<^sub>k (\<parallel>centeredCurrent[k]\<parallel>\<^sup>2 + \<parallel>centeredReference[k]\<parallel>\<^sup>2)\<close>.\<close>

definition squaredNormSum :: "('d::{zero,plus,times}) Vec3 list \<Rightarrow> 'd Vec3 list \<Rightarrow> 'd" where
  "squaredNormSum cc cr =
     foldl (\<lambda>s k. s + (dot (cc ! k) (cc ! k) + dot (cr ! k) (cr ! k))) 0 [0..<length cc]"

text \<open>The symmetric 4x4 matrix of Coutsias, Seok and Dill ("Using quaternions to calculate
  RMSD"), which the specification names as the quaternion matrix of \<open>R\<close>: three
  differences and three sums of mirrored entries of \<open>R\<close> off the diagonal, the four signed
  traces on it.\<close>

definition quaternionMatrix :: "('d::{plus,minus,uminus}) list list \<Rightarrow> 'd list list" where
  "quaternionMatrix R =
     (let Sxx = R!0!0; Sxy = R!0!1; Sxz = R!0!2;
          Syx = R!1!0; Syy = R!1!1; Syz = R!1!2;
          Szx = R!2!0; Szy = R!2!1; Szz = R!2!2;
          a = Syz - Szy; b = Szx - Sxz; c = Sxy - Syx;
          d = Sxy + Syx; e = Sxz + Szx; f = Syz + Szy
      in [[Sxx + Syy + Szz, a, b, c],
          [a, Sxx - Syy - Szz, d, e],
          [b, d, - Sxx + Syy - Szz, f],
          [c, e, f, - Sxx - Syy + Szz]])"

text \<open>The rotation matrix of a quaternion \<open>(q0, q1, q2, q3)\<close> by the standard formula.\<close>

definition standardRotation ::
  "'d platform \<Rightarrow> ('d::{plus,minus,times}) \<Rightarrow> 'd \<Rightarrow> 'd \<Rightarrow> 'd \<Rightarrow> 'd list list" where
  "standardRotation P q0 q1 q2 q3 =
     [[q0 * q0 + q1 * q1 - q2 * q2 - q3 * q3,
       fromInt P 2 * (q1 * q2 - q0 * q3),
       fromInt P 2 * (q1 * q3 + q0 * q2)],
      [fromInt P 2 * (q1 * q2 + q0 * q3),
       q0 * q0 - q1 * q1 + q2 * q2 - q3 * q3,
       fromInt P 2 * (q2 * q3 - q0 * q1)],
      [fromInt P 2 * (q1 * q3 - q0 * q2),
       fromInt P 2 * (q2 * q3 + q0 * q1),
       q0 * q0 - q1 * q1 - q2 * q2 + q3 * q3]]"

text \<open>The product of a 3x3 matrix (a list of rows) with a vector, and the transpose.\<close>

definition matVec3 :: "('d::{plus,times}) list list \<Rightarrow> 'd Vec3 \<Rightarrow> 'd Vec3" where
  "matVec3 A p =
     Vec3 (A!0!0 * vnth p 0 + A!0!1 * vnth p 1 + A!0!2 * vnth p 2)
          (A!1!0 * vnth p 0 + A!1!1 * vnth p 1 + A!1!2 * vnth p 2)
          (A!2!0 * vnth p 0 + A!2!1 * vnth p 1 + A!2!2 * vnth p 2)"

definition transpose3 :: "'d list list \<Rightarrow> 'd list list" where
  "transpose3 A = map (\<lambda>j. map (\<lambda>i. A ! i ! j) [0, 1, 2]) [0, 1, 2]"

text \<open>The matrix \<open>F\<close> of an evaluation, the eigenvalue and the quaternion that the solver
  reports for it last (\<open>values[3]\<close> and column 3 of the vectors), and the mean square
  deviation \<open>(\<Sum>\<^sub>k (\<parallel>centeredCurrent[k]\<parallel>\<^sup>2 + \<parallel>centeredReference[k]\<parallel>\<^sup>2) - 2\<lambda>) / N\<close>.\<close>

definition specF ::
  "'d platform \<Rightarrow> ('d::{zero,plus,minus,uminus,times}) ConcertedRMSDForceImpl \<Rightarrow> 'd Vec3 list
     \<Rightarrow> 'd list list" where
  "specF P st positions =
     quaternionMatrix (specR (centeredCurrent P positions (particles st)) (centeredReference st))"

definition reportedEigenvalue ::
  "'d platform \<Rightarrow> 'd eigensolver \<Rightarrow> ('d::{zero,plus,minus,uminus,times}) ConcertedRMSDForceImpl
     \<Rightarrow> 'd Vec3 list \<Rightarrow> 'd" where
  "reportedEigenvalue P eigen st positions = fst (eigen (specF P st positions)) ! 3"

definition reportedQuaternion ::
  "'d platform \<Rightarrow> 'd eigensolver \<Rightarrow> ('d::{zero,plus,minus,uminus,times}) ConcertedRMSDForceImpl
     \<Rightarrow> 'd Vec3 list \<Rightarrow> 'd list" where
  "reportedQuaternion P eigen st positions =
     (let vectors = snd (eigen (specF P st positions))
      in [vectors!0!3, vectors!1!3, vectors!2!3, vectors!3!3])"

definition specMsd ::
  "'d platform \<Rightarrow> 'd eigensolver \<Rightarrow> ('d::{zero,plus,minus,uminus,times,inverse}) ConcertedRMSDForceImpl
     \<Rightarrow> 'd Vec3 list \<Rightarrow> 'd" where
  "specMsd P eigen st positions =
     (squaredNormSum (centeredCurrent P positions (particles st)) (centeredReference st)
        - fromInt P 2 * reportedEigenvalue P eigen st positions)
     / fromInt P (int (length (particles st)))"

text \<open>The matrix \<open>U\<close> of an evaluation: the standard rotation matrix of the reported
  quaternion.\<close>

definition specU ::
  "'d platform \<Rightarrow> 'd eigensolver \<Rightarrow> ('d::{zero,plus,minus,uminus,times}) ConcertedRMSDForceImpl
     \<Rightarrow> 'd Vec3 list \<Rightarrow> 'd list list" where
  "specU P eigen st positions =
     (let q = reportedQuaternion P eigen st positions
      in standardRotation P (q ! 0) (q ! 1) (q ! 2) (q ! 3))"


text \<open>The product of a real matrix with a vector, to check an eigenvector.\<close>

definition matVec :: "real list list \<Rightarrow> real list \<Rightarrow> real list" where
  "matVec A v = map (\<lambda>row. \<Sum>(a, x)\<leftarrow>zip row v. a * x) A"

section \<open>Concrete objects used in the examples\<close>

text \<open>An implementation object before its first configuration: no selection, no reference.\<close>

definition freshImpl :: "real ConcertedRMSDForceImpl" where
  "freshImpl = \<lparr>particles = [], numParticles = 0, referencePos = []\<rparr>"

text \<open>A two-particle system configured with both particles selected: the reference
  \<open>(0,0,0), (1,0,0)\<close> after centering.\<close>

definition pairImpl :: "real ConcertedRMSDForceImpl" where
  "pairImpl = \<lparr>particles = [0, 1], numParticles = 2,
               referencePos = [Vec3 (- 1 / 2) 0 0, Vec3 (1 / 2) 0 0]\<rparr>"

text \<open>Two stand-ins for the eigensolver, each a true eigendecomposition on the matrices it
  is used on.  The first is for a diagonal matrix with a descending diagonal: the values
  in ascending order, the unit vectors as columns.\<close>

definition diagonalEigen :: "real eigensolver" where
  "diagonalEigen F =
     ([F!3!3, F!2!2, F!1!1, F!0!0],
      [[0, 0, 0, 1],
       [0, 0, 1, 0],
       [0, 1, 0, 0],
       [1, 0, 0, 0]])"

text \<open>The second is for the matrix \<open>[[0,0,4,4],[0,0,4,4],[4,4,0,0],[4,4,0,0]]\<close>: eigenvalues
  \<open>-8, 0, 0, 8\<close>, the eigenvectors (orthonormal, with entries \<open>\<plusminus>1/2\<close>) as columns.\<close>

definition cycleEigen :: "real eigensolver" where
  "cycleEigen F =
     ([- 8, 0, 0, 8],
      [[1 / 2, 1 / 2, 1 / 2, 1 / 2],
       [1 / 2, - 1 / 2, - 1 / 2, 1 / 2],
       [- 1 / 2, 1 / 2, - 1 / 2, 1 / 2],
       [- 1 / 2, - 1 / 2, 1 / 2, 1 / 2]])"

text \<open>Four particles, all selected, the reference a square in the xy plane centred at the
  origin; and current positions that are this square turned by a third of a turn about the
  axis \<open>(1,1,1)\<close> (x to z, y to x) and doubled.\<close>

definition squareImpl :: "real ConcertedRMSDForceImpl" where
  "squareImpl = \<lparr>particles = [0, 1, 2, 3], numParticles = 4,
                 referencePos = [Vec3 1 0 0, Vec3 0 1 0, Vec3 (- 1) 0 0, Vec3 0 (- 1) 0]\<rparr>"

definition squareTurned :: "real Vec3 list" where
  "squareTurned = [Vec3 0 0 2, Vec3 2 0 0, Vec3 0 0 (- 2), Vec3 (- 2) 0 0]"

section \<open>Exact eigenvalues\<close>

text \<open>Eigenvalues of a real square matrix given as a list of rows; the largest one.  They
  serve to say what an exact solver returns.\<close>

definition eigenvalueOf :: "real list list \<Rightarrow> real \<Rightarrow> bool" where
  "eigenvalueOf A lam \<longleftrightarrow>
     (\<exists>v. length v = length A \<and> (\<exists>x\<in>set v. x \<noteq> 0) \<and> matVec A v = map ((*) lam) v)"

definition largestEigenvalue :: "real list list \<Rightarrow> real \<Rightarrow> bool" where
  "largestEigenvalue A lam \<longleftrightarrow> eigenvalueOf A lam \<and> (\<forall>mu. eigenvalueOf A mu \<longrightarrow> mu \<le> lam)"

section \<open>The validation loop and the recentering block\<close>

lemma checkParticles_None_iff:
  "checkParticles n ps D = None \<longleftrightarrow>
     (\<forall>i\<in>set ps. 0 \<le> i \<and> i < int n) \<and> distinct ps \<and> set ps \<inter> D = {}"
  by (induction ps arbitrary: D) auto

lemma checkParticles_fails_iff:
  "checkParticles n ps {} \<noteq> None \<longleftrightarrow>
     (\<exists>i\<in>set ps. i < 0 \<or> int n \<le> i) \<or> \<not> distinct ps"
proof -
  have "(\<forall>i\<in>set ps. 0 \<le> i \<and> i < int n) \<longleftrightarrow> \<not> (\<exists>i\<in>set ps. i < 0 \<or> int n \<le> i)"
    by (simp add: not_le not_less)
  then show ?thesis by (simp add: checkParticles_None_iff)
qed

text \<open>Whatever the loop throws names an element of the selection: one outside
  \<open>[0, systemSize)\<close>, or one that was seen before.\<close>

lemma checkParticles_Some:
  "checkParticles n ps D = Some e \<Longrightarrow>
     \<exists>i\<in>set ps.
        (e = OpenMMException (''ConcertedRMSDForce: Illegal particle index for RMSD: '' @ string_of_int i)
           \<and> (i < 0 \<or> int n \<le> i))
      \<or> (e = OpenMMException (''ConcertedRMSDForce: Duplicated particle index for RMSD: '' @ string_of_int i)
           \<and> (i \<in> D \<or> 2 \<le> count_list ps i))"
proof (induction ps arbitrary: D)
  case Nil
  then show ?case by simp
next
  case (Cons a ps)
  show ?case
  proof (cases "a < 0 \<or> int n \<le> a")
    case True
    with Cons.prems show ?thesis by auto
  next
    case range: False
    show ?thesis
    proof (cases "a \<in> D")
      case True
      with range Cons.prems show ?thesis by auto
    next
      case False
      with range Cons.prems have "checkParticles n ps (insert a D) = Some e" by simp
      from Cons.IH[OF this] obtain i where i: "i \<in> set ps"
        "(e = OpenMMException (''ConcertedRMSDForce: Illegal particle index for RMSD: '' @ string_of_int i)
           \<and> (i < 0 \<or> int n \<le> i))
        \<or> (e = OpenMMException (''ConcertedRMSDForce: Duplicated particle index for RMSD: '' @ string_of_int i)
           \<and> (i \<in> insert a D \<or> 2 \<le> count_list ps i))" by blast
      have "i = a \<Longrightarrow> 2 \<le> count_list (a # ps) i"
        using i(1) count_list_0_iff[of ps i] by simp
      with i show ?thesis by (intro bexI[of _ i]) auto
    qed
  qed
qed

lemma sumPositions_None_iff:
  "sumPositions pos ps c = None \<longleftrightarrow> (\<exists>i\<in>set ps. i < 0 \<or> int (length pos) \<le> i)"
  by (induction ps arbitrary: c) auto

lemma recenter_no_exception: "fst (recenter P st) \<noteq> Some (OpenMMException msg)"
  by (simp add: recenter_def Let_def split: option.split)

lemma recenter_fields:
  "particles (snd (recenter P st)) = particles st"
  "numParticles (snd (recenter P st)) = numParticles st"
  "length (referencePos (snd (recenter P st))) = length (referencePos st)"
  by (simp_all add: recenter_def Let_def split: option.split)

lemma recenter_outcome:
  "fst (recenter P st) = (if \<exists>i\<in>set (particles st). i < 0 \<or> int (length (referencePos st)) \<le> i
                        then Some OutOfBounds else None)"
  using sumPositions_None_iff[of "referencePos st" "particles st" "Vec3 0 0 0"]
  by (auto simp: recenter_def Let_def split: option.split)

section \<open>\<open>initialize\<close>: when it throws\<close>

lemma initialize_outcome:
  "fst (initialize P owner systemSize st) =
     (if length (getReferencePositions owner) \<noteq> systemSize then
        Some (OpenMMException
           ''RMSDForce: Number of reference positions does not equal number of particles in the System'')
      else checkParticles systemSize (getParticles owner) {})"
proof (cases "length (getReferencePositions owner) = systemSize")
  case False
  then show ?thesis by (simp add: initialize_def)
next
  case len: True
  show ?thesis
  proof (cases "checkParticles systemSize (getParticles owner) {}")
    case None
    then have "\<forall>i\<in>set (getParticles owner). 0 \<le> i \<and> i < int systemSize"
      by (simp add: checkParticles_None_iff)
    with None len show ?thesis
      by (auto simp add: initialize_def Let_def recenter_outcome)
  next
    case (Some e)
    with len show ?thesis by (simp add: initialize_def Let_def)
  qed
qed

text \<open>
  Claim C6.  \<open>initialize\<close> throws an \<open>OpenMMException\<close> exactly when the number of
  reference positions differs from the number of particles of the system, or some selected
  index lies outside \<open>[0, systemSize)\<close>, or some index is selected more than once.  It never
  reads outside a vector.  When the sizes agree, the exception thrown carries the decimal
  print of an index of the selection that is out of range (message "Illegal particle
  index") or occurs at least twice (message "Duplicated particle index").
\<close>

theorem initialize_throws_iff:
  "((\<exists>msg. fst (initialize P owner systemSize st) = Some (OpenMMException msg)) \<longleftrightarrow>
      (length (getReferencePositions owner) \<noteq> systemSize
       \<or> (\<exists>i\<in>set (getParticles owner). i < 0 \<or> int systemSize \<le> i)
       \<or> \<not> distinct (getParticles owner)))
   \<and> fst (initialize P owner systemSize st) \<noteq> Some OutOfBounds
   \<and> (length (getReferencePositions owner) = systemSize \<longrightarrow>
        (\<forall>e. fst (initialize P owner systemSize st) = Some e \<longrightarrow>
          (\<exists>i\<in>set (getParticles owner).
              (e = OpenMMException (''ConcertedRMSDForce: Illegal particle index for RMSD: '' @ string_of_int i)
                 \<and> (i < 0 \<or> int systemSize \<le> i))
            \<or> (e = OpenMMException (''ConcertedRMSDForce: Duplicated particle index for RMSD: '' @ string_of_int i)
                 \<and> 2 \<le> count_list (getParticles owner) i))))"
proof (intro conjI)
  let ?out = "fst (initialize P owner systemSize st)"
  have shape: "?out = Some e \<Longrightarrow> \<exists>msg. e = OpenMMException msg" for e
    using checkParticles_Some[of systemSize "getParticles owner" "{}" e]
    by (auto simp: initialize_outcome split: if_splits)
  then show "?out \<noteq> Some OutOfBounds" by blast
  have "(\<exists>msg. ?out = Some (OpenMMException msg)) \<longleftrightarrow> ?out \<noteq> None"
    using shape by (cases ?out) auto
  also have "\<dots> \<longleftrightarrow> (length (getReferencePositions owner) \<noteq> systemSize
       \<or> (\<exists>i\<in>set (getParticles owner). i < 0 \<or> int systemSize \<le> i)
       \<or> \<not> distinct (getParticles owner))"
    using checkParticles_fails_iff[of systemSize "getParticles owner"]
    by (simp add: initialize_outcome)
  finally show "(\<exists>msg. ?out = Some (OpenMMException msg)) \<longleftrightarrow>
      (length (getReferencePositions owner) \<noteq> systemSize
       \<or> (\<exists>i\<in>set (getParticles owner). i < 0 \<or> int systemSize \<le> i)
       \<or> \<not> distinct (getParticles owner))" .
  show "length (getReferencePositions owner) = systemSize \<longrightarrow>
        (\<forall>e. ?out = Some e \<longrightarrow>
          (\<exists>i\<in>set (getParticles owner).
              (e = OpenMMException (''ConcertedRMSDForce: Illegal particle index for RMSD: '' @ string_of_int i)
                 \<and> (i < 0 \<or> int systemSize \<le> i))
            \<or> (e = OpenMMException (''ConcertedRMSDForce: Duplicated particle index for RMSD: '' @ string_of_int i)
                 \<and> 2 \<le> count_list (getParticles owner) i)))"
    using checkParticles_Some[of systemSize "getParticles owner" "{}"]
    by (auto simp: initialize_outcome)
qed

text \<open>At a two-particle system with the selection \<open>[0, 2]\<close>: the index 2 is reported.\<close>

theorem initialize_throws_iff_witness:
  "fst (initialize exactArithmetic (ConcertedRMSDForce [Vec3 0 0 0, Vec3 1 0 0] [0, 2]) 2 freshImpl)
     = Some (OpenMMException ''ConcertedRMSDForce: Illegal particle index for RMSD: 2'')
   \<and> (\<exists>i\<in>set [0, 2 :: int]. i < 0 \<or> int 2 \<le> i)"
  using initialize_throws_iff[of exactArithmetic "ConcertedRMSDForce [Vec3 0 0 0, Vec3 1 0 0] [0, 2]" 2 freshImpl]
  by (simp add: initialize_def Let_def freshImpl_def ConcertedRMSDForce_def string_of_int_def
        string_of_nat.simps digit_def)

section \<open>\<open>initialize\<close>: the object after a failure\<close>

lemma initialize_state_on_failure:
  assumes "fst (initialize P owner systemSize st) = Some e"
  shows "snd (initialize P owner systemSize st) =
           (if length (getReferencePositions owner) \<noteq> systemSize then st
            else st\<lparr>particles := getParticles owner, numParticles := length (getParticles owner)\<rparr>)"
proof (cases "length (getReferencePositions owner) = systemSize")
  case False
  then show ?thesis by (simp add: initialize_def)
next
  case len: True
  with assms have "checkParticles systemSize (getParticles owner) {} = Some e"
    by (simp add: initialize_outcome)
  with len show ?thesis by (simp add: initialize_def Let_def)
qed

text \<open>
  Claim C3, as amended.  When \<open>initialize\<close> fails, the stored reference positions are what
  they were before the call.  On a size mismatch the whole object is unchanged.  On an
  index error (the sizes agree) the stored selection and the particle count have already
  been assigned from the owner's selection, which the validation loop then rejects.
\<close>

theorem initialize_failure_state:
  "fst (initialize P owner systemSize st) = Some e \<Longrightarrow>
     referencePos (snd (initialize P owner systemSize st)) = referencePos st
     \<and> (length (getReferencePositions owner) \<noteq> systemSize \<longrightarrow>
          snd (initialize P owner systemSize st) = st)
     \<and> (length (getReferencePositions owner) = systemSize \<longrightarrow>
          particles (snd (initialize P owner systemSize st)) = getParticles owner
          \<and> numParticles (snd (initialize P owner systemSize st)) = length (getParticles owner))"
  by (simp add: initialize_state_on_failure)

text \<open>A duplicated index: the reference stays empty, the selection is the rejected one.\<close>

theorem initialize_failure_state_witness:
  "fst (initialize exactArithmetic (ConcertedRMSDForce [Vec3 0 0 0, Vec3 1 0 0] [1, 1]) 2 freshImpl)
     = Some (OpenMMException ''ConcertedRMSDForce: Duplicated particle index for RMSD: 1'')
   \<and> referencePos (snd (initialize exactArithmetic (ConcertedRMSDForce [Vec3 0 0 0, Vec3 1 0 0] [1, 1]) 2 freshImpl)) = []
   \<and> particles (snd (initialize exactArithmetic (ConcertedRMSDForce [Vec3 0 0 0, Vec3 1 0 0] [1, 1]) 2 freshImpl)) = [1, 1]"
proof -
  have h: "fst (initialize exactArithmetic (ConcertedRMSDForce [Vec3 0 0 0, Vec3 1 0 0] [1, 1]) 2 freshImpl)
     = Some (OpenMMException ''ConcertedRMSDForce: Duplicated particle index for RMSD: 1'')"
    by (simp add: initialize_def Let_def freshImpl_def ConcertedRMSDForce_def string_of_int_def
        string_of_nat.simps digit_def)
  show ?thesis using h initialize_failure_state[OF h]
    by (simp add: freshImpl_def ConcertedRMSDForce_def)
qed

text \<open>The claim as stated (no field changes on any failure) fails: an object with no
  selection, asked to select \<open>[0, 5]\<close> of a two-particle system, throws for the index 5
  and is left with the selection \<open>[0, 5]\<close> and the count 2.\<close>

theorem initialize_all_or_nothing_counterexample:
  "fst (initialize exactArithmetic (ConcertedRMSDForce [Vec3 0 0 0, Vec3 1 0 0] [0, 5]) 2 freshImpl)
     = Some (OpenMMException ''ConcertedRMSDForce: Illegal particle index for RMSD: 5'')
   \<and> particles freshImpl = []
   \<and> numParticles freshImpl = 0
   \<and> particles (snd (initialize exactArithmetic (ConcertedRMSDForce [Vec3 0 0 0, Vec3 1 0 0] [0, 5]) 2 freshImpl)) = [0, 5]
   \<and> numParticles (snd (initialize exactArithmetic (ConcertedRMSDForce [Vec3 0 0 0, Vec3 1 0 0] [0, 5]) 2 freshImpl)) = 2"
  by (simp add: initialize_def Let_def freshImpl_def ConcertedRMSDForce_def string_of_int_def
        string_of_nat.simps digit_def)

section \<open>\<open>updateParametersInContext\<close>\<close>

text \<open>
  Claim C8.  When the owner's reference array and the stored one differ in length,
  \<open>updateParametersInContext\<close> throws "The number of reference positions has changed"
  and the object is exactly as before.
\<close>

theorem update_rejects_size_change:
  "length (referencePos st) \<noteq> length (getReferencePositions owner) \<Longrightarrow>
     updateParametersInContext P owner st =
       (Some (OpenMMException ''updateParametersInContext: The number of reference positions has changed''), st)"
  by (simp add: updateParametersInContext_def)

text \<open>A one-entry reference offered to an object configured with two entries.\<close>

theorem update_rejects_size_change_witness:
  "length (referencePos pairImpl) \<noteq> length (getReferencePositions (ConcertedRMSDForce [Vec3 0 0 0] [0]))
   \<and> updateParametersInContext exactArithmetic (ConcertedRMSDForce [Vec3 0 0 0] [0]) pairImpl =
       (Some (OpenMMException ''updateParametersInContext: The number of reference positions has changed''),
        pairImpl)"
  using update_rejects_size_change[where P = exactArithmetic and st = pairImpl and owner = "ConcertedRMSDForce [Vec3 0 0 0] [0]"]
  by (simp add: pairImpl_def ConcertedRMSDForce_def)

lemma update_outcome:
  "length (referencePos st) = length (getReferencePositions owner) \<Longrightarrow>
   fst (updateParametersInContext P owner st) =
     (if getParticles owner \<noteq> [] \<and>
         (\<exists>i\<in>set (getParticles owner). i < 0 \<or> int (length (referencePos st)) \<le> i)
      then Some OutOfBounds else None)"
  by (auto simp: updateParametersInContext_def Let_def recenter_outcome)

lemma update_selection:
  "length (referencePos st) = length (getReferencePositions owner) \<Longrightarrow>
   particles (snd (updateParametersInContext P owner st)) =
     (if getParticles owner = [] then map int [0..<length (referencePos st)] else getParticles owner)"
  "length (referencePos st) = length (getReferencePositions owner) \<Longrightarrow>
   numParticles (snd (updateParametersInContext P owner st)) =
     (if getParticles owner = [] then length (referencePos st) else length (getParticles owner))"
  by (simp_all add: updateParametersInContext_def Let_def recenter_fields)

text \<open>
  Claim C7.  With an empty owner selection (and the reference length unchanged),
  \<open>updateParametersInContext\<close> completes and stores the selection
  \<open>0, 1, \<dots>, n - 1\<close> in this order, where \<open>n\<close> is the length of the stored reference
  array; the system's particle count plays no part.
\<close>

theorem update_empty_selection:
  "length (referencePos st) = length (getReferencePositions owner) \<Longrightarrow> getParticles owner = [] \<Longrightarrow>
     fst (updateParametersInContext P owner st) = None
     \<and> particles (snd (updateParametersInContext P owner st)) = map int [0..<length (referencePos st)]
     \<and> numParticles (snd (updateParametersInContext P owner st)) = length (referencePos st)"
  by (simp add: update_outcome update_selection)

theorem update_empty_selection_witness:
  "fst (updateParametersInContext exactArithmetic (ConcertedRMSDForce [Vec3 0 0 0, Vec3 1 0 0] []) pairImpl) = None
   \<and> particles (snd (updateParametersInContext exactArithmetic (ConcertedRMSDForce [Vec3 0 0 0, Vec3 1 0 0] []) pairImpl))
        = [0, 1]
   \<and> numParticles (snd (updateParametersInContext exactArithmetic (ConcertedRMSDForce [Vec3 0 0 0, Vec3 1 0 0] []) pairImpl))
        = 2"
  using update_empty_selection
          [where P = exactArithmetic and st = pairImpl and owner = "ConcertedRMSDForce [Vec3 0 0 0, Vec3 1 0 0] []"]
  by (simp add: pairImpl_def ConcertedRMSDForce_def)

text \<open>
  Claim C10.  With a non-empty owner selection and the reference length unchanged,
  \<open>updateParametersInContext\<close> throws no exception, whatever the selection holds.  If some
  index is outside the stored reference array, the recentering loop reads outside that
  array.  Otherwise the call completes and stores the selection as given, duplicates
  included.
\<close>

theorem update_no_validation:
  "length (referencePos st) = length (getReferencePositions owner) \<Longrightarrow> getParticles owner \<noteq> [] \<Longrightarrow>
     (\<forall>msg. fst (updateParametersInContext P owner st) \<noteq> Some (OpenMMException msg))
     \<and> ((\<exists>i\<in>set (getParticles owner). i < 0 \<or> int (length (referencePos st)) \<le> i) \<longrightarrow>
           fst (updateParametersInContext P owner st) = Some OutOfBounds)
     \<and> (\<not> (\<exists>i\<in>set (getParticles owner). i < 0 \<or> int (length (referencePos st)) \<le> i) \<longrightarrow>
           fst (updateParametersInContext P owner st) = None
           \<and> particles (snd (updateParametersInContext P owner st)) = getParticles owner)"
  by (simp add: update_outcome update_selection)

text \<open>The selection \<open>[0, 7]\<close> on a two-entry reference reads outside the array; the
  selection \<open>[1, 1]\<close> is stored.\<close>

theorem update_no_validation_witness:
  "fst (updateParametersInContext exactArithmetic (ConcertedRMSDForce [Vec3 0 0 0, Vec3 1 0 0] [0, 7]) pairImpl)
     = Some OutOfBounds
   \<and> fst (updateParametersInContext exactArithmetic (ConcertedRMSDForce [Vec3 0 0 0, Vec3 1 0 0] [1, 1]) pairImpl) = None
   \<and> particles (snd (updateParametersInContext exactArithmetic (ConcertedRMSDForce [Vec3 0 0 0, Vec3 1 0 0] [1, 1]) pairImpl))
        = [1, 1]"
  using update_no_validation
          [where P = exactArithmetic and st = pairImpl and owner = "ConcertedRMSDForce [Vec3 0 0 0, Vec3 1 0 0] [0, 7]"]
        update_no_validation
          [where P = exactArithmetic and st = pairImpl and owner = "ConcertedRMSDForce [Vec3 0 0 0, Vec3 1 0 0] [1, 1]"]
  by (simp add: pairImpl_def ConcertedRMSDForce_def)

section \<open>Recentering the reference\<close>

lemma vnth_Vec3 [simp]:
  "vnth (Vec3 x y z) 0 = x" "vnth (Vec3 x y z) 1 = y" "vnth (Vec3 x y z) 2 = z"
  "vnth (Vec3 x y z) (Suc 0) = y"
  by simp_all

text \<open>The loop over the selection is a left fold of \<open>+\<close> over the selected positions.\<close>

lemma sumPositions_foldl:
  "\<forall>i\<in>set ps. 0 \<le> i \<and> i < int (length pos) \<Longrightarrow>
     sumPositions pos ps c = Some (foldl vadd c (map (\<lambda>i. pos ! nat i) ps))"
  by (induction ps arbitrary: c) (simp_all add: nat_less_iff)

lemma recenter_result:
  assumes "\<forall>i\<in>set (particles st). 0 \<le> i \<and> i < int (length (referencePos st))"
    and "numParticles st = length (particles st)"
  shows "recenter P st =
           (None, st\<lparr>referencePos := map (\<lambda>p. vsub p (centroid P (referencePos st) (particles st)))
                                        (referencePos st)\<rparr>)"
  using assms by (simp add: recenter_def sumPositions_foldl centroid_def)

text \<open>
  Claim C2, as amended.  A valid \<open>initialize\<close> (sizes agreeing, indices inside
  \<open>[0, systemSize)\<close> and distinct) and a valid \<open>updateParametersInContext\<close> (reference
  length unchanged, indices inside the reference array) complete and store, at every index
  of the array, selected or not, the owner's coordinate minus \<open>center\<close>.  Here \<open>center\<close> is
  the centroid the code computes from the owner's coordinates over the stored selection:
  their sum in the order of the selection, divided by the size of the selection.  For
  \<open>updateParametersInContext\<close> with an empty owner selection the stored selection is
  \<open>0, \<dots>, n - 1\<close>.
\<close>

theorem recentering_translates_every_entry:
  "(length (getReferencePositions owner) = systemSize
      \<and> (\<forall>i\<in>set (getParticles owner). 0 \<le> i \<and> i < int systemSize)
      \<and> distinct (getParticles owner) \<longrightarrow>
        fst (initialize P owner systemSize st) = None
        \<and> referencePos (snd (initialize P owner systemSize st)) =
            map (\<lambda>p. vsub p (centroid P (getReferencePositions owner) (getParticles owner)))
                (getReferencePositions owner))
   \<and> (length (referencePos st) = length (getReferencePositions owner)
      \<and> (\<forall>i\<in>set (getParticles owner). 0 \<le> i \<and> i < int (length (referencePos st))) \<longrightarrow>
        fst (updateParametersInContext P owner st) = None
        \<and> referencePos (snd (updateParametersInContext P owner st)) =
            map (\<lambda>p. vsub p (centroid P (getReferencePositions owner)
                                 (if getParticles owner = [] then map int [0..<length (referencePos st)]
                                  else getParticles owner)))
                (getReferencePositions owner))"
proof (intro conjI impI)
  assume a: "length (getReferencePositions owner) = systemSize
      \<and> (\<forall>i\<in>set (getParticles owner). 0 \<le> i \<and> i < int systemSize)
      \<and> distinct (getParticles owner)"
  then have ok: "checkParticles systemSize (getParticles owner) {} = None"
    by (simp add: checkParticles_None_iff)
  with a show "fst (initialize P owner systemSize st) = None" by (simp add: initialize_outcome)
  from a ok show "referencePos (snd (initialize P owner systemSize st)) =
            map (\<lambda>p. vsub p (centroid P (getReferencePositions owner) (getParticles owner)))
                (getReferencePositions owner)"
    by (simp add: initialize_def Let_def recenter_result)
next
  assume a: "length (referencePos st) = length (getReferencePositions owner)
      \<and> (\<forall>i\<in>set (getParticles owner). 0 \<le> i \<and> i < int (length (referencePos st)))"
  then have len: "length (referencePos st) = length (getReferencePositions owner)"
    and rng: "\<forall>i\<in>set (getParticles owner). 0 \<le> i \<and> i < int (length (getReferencePositions owner))"
    by auto
  from len rng show "fst (updateParametersInContext P owner st) = None"
    by (simp add: update_outcome not_le not_less)
  from len rng show "referencePos (snd (updateParametersInContext P owner st)) =
            map (\<lambda>p. vsub p (centroid P (getReferencePositions owner)
                                 (if getParticles owner = [] then map int [0..<length (referencePos st)]
                                  else getParticles owner)))
                (getReferencePositions owner)"
    by (simp add: updateParametersInContext_def Let_def recenter_result)
qed

text \<open>The claim as stated (entries outside the selection are stored as supplied) fails:
  with the reference \<open>(1,0,0), (5,0,0)\<close> and the selection \<open>[0]\<close>, the centroid is
  \<open>(1,0,0)\<close> and the unselected entry 1 is stored as \<open>(4,0,0)\<close>, by either operation.\<close>

theorem unselected_reference_counterexample:
  "fst (initialize exactArithmetic (ConcertedRMSDForce [Vec3 1 0 0, Vec3 5 0 0] [0]) 2 freshImpl) = None
   \<and> 1 \<notin> set (getParticles (ConcertedRMSDForce [Vec3 1 0 0, Vec3 5 0 0 :: real Vec3] [0]))
   \<and> getReferencePositions (ConcertedRMSDForce [Vec3 1 0 0, Vec3 5 0 0 :: real Vec3] [0]) ! 1 = Vec3 5 0 0
   \<and> referencePos (snd (initialize exactArithmetic (ConcertedRMSDForce [Vec3 1 0 0, Vec3 5 0 0] [0]) 2 freshImpl)) ! 1
        = Vec3 4 0 0
   \<and> fst (updateParametersInContext exactArithmetic (ConcertedRMSDForce [Vec3 1 0 0, Vec3 5 0 0] [0]) pairImpl) = None
   \<and> referencePos (snd (updateParametersInContext exactArithmetic (ConcertedRMSDForce [Vec3 1 0 0, Vec3 5 0 0] [0]) pairImpl)) ! 1
        = Vec3 4 0 0"
  by (simp add: initialize_def updateParametersInContext_def recenter_def Let_def freshImpl_def
        pairImpl_def ConcertedRMSDForce_def exactArithmetic_def)

text \<open>Three particles, the first and the third selected: the centroid is \<open>(2,0,0)\<close>.  And the
  pair updated with an empty selection: both particles are selected, the centroid of
  \<open>(1,0,0), (5,0,0)\<close> is \<open>(3,0,0)\<close>.\<close>

theorem recentering_translates_every_entry_witness:
  "referencePos (snd (initialize exactArithmetic
                        (ConcertedRMSDForce [Vec3 1 0 0, Vec3 5 0 0, Vec3 3 0 0] [0, 2]) 3 freshImpl))
     = [Vec3 (- 1) 0 0, Vec3 3 0 0, Vec3 1 0 0]
   \<and> referencePos (snd (updateParametersInContext exactArithmetic
                          (ConcertedRMSDForce [Vec3 1 0 0, Vec3 5 0 0] []) pairImpl))
     = [Vec3 (- 2) 0 0, Vec3 2 0 0]"
  using recentering_translates_every_entry
          [of "ConcertedRMSDForce [Vec3 1 0 0, Vec3 5 0 0, Vec3 3 0 0] [0, 2]" 3 exactArithmetic freshImpl]
        recentering_translates_every_entry
          [of "ConcertedRMSDForce [Vec3 1 0 0, Vec3 5 0 0] []" 2 exactArithmetic pairImpl]
  by (simp add: ConcertedRMSDForce_def centroid_def exactArithmetic_def pairImpl_def upt_conv_Cons)

section \<open>The selection a completed configuration stores\<close>

lemma initialize_state_on_success:
  assumes "fst (initialize P owner systemSize st) = None"
  shows "particles (snd (initialize P owner systemSize st)) = getParticles owner"
    and "numParticles (snd (initialize P owner systemSize st)) = length (getParticles owner)"
    and "length (referencePos (snd (initialize P owner systemSize st))) = systemSize"
proof -
  from assms have len: "length (getReferencePositions owner) = systemSize"
    and ok: "checkParticles systemSize (getParticles owner) {} = None"
    by (simp_all add: initialize_outcome split: if_splits)
  then show "particles (snd (initialize P owner systemSize st)) = getParticles owner"
    and "numParticles (snd (initialize P owner systemSize st)) = length (getParticles owner)"
    and "length (referencePos (snd (initialize P owner systemSize st))) = systemSize"
    by (simp_all add: initialize_def Let_def recenter_fields)
qed

text \<open>What a completed configuration does establish.  After \<open>initialize\<close>: the owner's
  selection, without duplicates and inside \<open>[0, systemSize)\<close>.  After
  \<open>updateParametersInContext\<close>: a selection inside the stored reference array, non-empty
  when that array is, and without duplicates when the owner's selection was empty.\<close>

lemma configured_selection:
  "(fst (initialize P owner systemSize st) = None \<longrightarrow>
      particles (snd (initialize P owner systemSize st)) = getParticles owner
      \<and> numParticles (snd (initialize P owner systemSize st)) = length (getParticles owner)
      \<and> distinct (particles (snd (initialize P owner systemSize st)))
      \<and> (\<forall>i\<in>set (particles (snd (initialize P owner systemSize st))). 0 \<le> i \<and> i < int systemSize))
   \<and> (fst (updateParametersInContext P owner st) = None \<longrightarrow>
      numParticles (snd (updateParametersInContext P owner st))
        = length (particles (snd (updateParametersInContext P owner st)))
      \<and> (\<forall>i\<in>set (particles (snd (updateParametersInContext P owner st))).
            0 \<le> i \<and> i < int (length (referencePos st)))
      \<and> (referencePos st \<noteq> [] \<longrightarrow> 1 \<le> length (particles (snd (updateParametersInContext P owner st))))
      \<and> (getParticles owner = [] \<longrightarrow> distinct (particles (snd (updateParametersInContext P owner st)))))"
proof (intro conjI impI)
  assume ok: "fst (initialize P owner systemSize st) = None"
  then have chk: "checkParticles systemSize (getParticles owner) {} = None"
    by (simp add: initialize_outcome split: if_splits)
  from ok show "particles (snd (initialize P owner systemSize st)) = getParticles owner"
    and "numParticles (snd (initialize P owner systemSize st)) = length (getParticles owner)"
    by (simp_all add: initialize_state_on_success)
  from ok chk show "distinct (particles (snd (initialize P owner systemSize st)))"
    and "\<forall>i\<in>set (particles (snd (initialize P owner systemSize st))). 0 \<le> i \<and> i < int systemSize"
    by (simp_all add: initialize_state_on_success checkParticles_None_iff)
next
  let ?st' = "snd (updateParametersInContext P owner st)"
  assume ok: "fst (updateParametersInContext P owner st) = None"
  then have len: "length (referencePos st) = length (getReferencePositions owner)"
    by (auto simp: updateParametersInContext_def split: if_splits)
  from len show "numParticles ?st' = length (particles ?st')"
    by (simp add: update_selection)
  from len ok show "\<forall>i\<in>set (particles ?st'). 0 \<le> i \<and> i < int (length (referencePos st))"
    by (auto simp: update_selection update_outcome split: if_splits)
  show "1 \<le> length (particles ?st')" if "referencePos st \<noteq> []"
  proof -
    from that have "0 < length (referencePos st)" by simp
    moreover have "getParticles owner \<noteq> [] \<Longrightarrow> 0 < length (getParticles owner)" by simp
    ultimately have "0 < length (particles ?st')"
      unfolding update_selection(1)[OF len] by (simp del: length_greater_0_conv)
    then show ?thesis by (simp add: Suc_le_eq del: length_greater_0_conv)
  qed
  from len show "distinct (particles ?st')" if "getParticles owner = []"
    using that by (simp add: update_selection distinct_map)
qed

text \<open>
  Claim C9 (the code departs from it).  The claim asks that every configuration that
  completes leaves a selection without duplicates, inside \<open>[0, systemSize)\<close> and of size
  at least 1.  \<open>updateParametersInContext\<close> has no validation loop: on the pair, with the
  owner's selection set to \<open>[0, 0]\<close>, it completes and stores \<open>[0, 0]\<close>, which
  \<open>initialize\<close> rejects for the same owner.  \<open>initialize\<close> has no default for an empty
  selection: it completes and stores the empty selection with the particle count 0, where
  \<open>updateParametersInContext\<close> selects every particle.
\<close>

theorem configuration_breaks_selection_invariant:
  "fst (updateParametersInContext exactArithmetic (ConcertedRMSDForce [Vec3 0 0 0, Vec3 1 0 0] [0, 0]) pairImpl) = None
   \<and> particles (snd (updateParametersInContext exactArithmetic (ConcertedRMSDForce [Vec3 0 0 0, Vec3 1 0 0] [0, 0]) pairImpl))
        = [0, 0]
   \<and> fst (initialize exactArithmetic (ConcertedRMSDForce [Vec3 0 0 0, Vec3 1 0 0] [0, 0]) 2 freshImpl)
        = Some (OpenMMException ''ConcertedRMSDForce: Duplicated particle index for RMSD: 0'')
   \<and> fst (initialize exactArithmetic (ConcertedRMSDForce [Vec3 0 0 0, Vec3 1 0 0] []) 2 freshImpl) = None
   \<and> particles (snd (initialize exactArithmetic (ConcertedRMSDForce [Vec3 0 0 0, Vec3 1 0 0] []) 2 freshImpl)) = []
   \<and> numParticles (snd (initialize exactArithmetic (ConcertedRMSDForce [Vec3 0 0 0, Vec3 1 0 0] []) 2 freshImpl)) = 0
   \<and> particles (snd (updateParametersInContext exactArithmetic (ConcertedRMSDForce [Vec3 0 0 0, Vec3 1 0 0] []) pairImpl))
        = [0, 1]"
  by (simp add: update_outcome update_selection initialize_outcome initialize_state_on_success
        ConcertedRMSDForce_def pairImpl_def freshImpl_def string_of_int_def string_of_nat.simps digit_def)

section \<open>The loops of \<open>computeForce\<close> in closed form\<close>

lemma map_upt_nth: "map (\<lambda>k. f (xs ! k)) [0..<length xs] = map f xs"
  by (rule nth_equalityI) simp_all

lemma fold_upt_cong:
  assumes "\<And>k r. k < n \<Longrightarrow> f k r = g k r"
  shows "fold f [0..<n] a = fold g [0..<n] a"
  by (rule fold_cong) (auto intro: assms)

lemma code_center:
  assumes "numParticles st = length (particles st)"
    and "\<forall>i\<in>set (particles st). 0 \<le> i \<and> i < int (length positions)"
  shows "sumPositions positions (particles st) (Vec3 0 0 0) =
           Some (foldl vadd (Vec3 0 0 0) (map (\<lambda>i. positions ! nat i) (particles st)))"
    and "scalarDiv P (foldl vadd (Vec3 0 0 0) (map (\<lambda>i. positions ! nat i) (particles st)))
                     (fromInt P (int (numParticles st)))
           = centroid P positions (particles st)"
  using assms by (simp_all add: sumPositions_foldl centroid_def)

lemma code_centeredPos:
  assumes "numParticles st = length (particles st)"
  shows "centeredPositions st positions (centroid P positions (particles st))
           = centeredCurrent P positions (particles st)"
  using assms
    map_upt_nth[where f = "\<lambda>i. vsub (positions ! nat i) (centroid P positions (particles st))"
                  and xs = "particles st"]
  by (simp add: centeredPositions_def centeredCurrent_def)

lemma code_correlation:
  assumes "numParticles st = length (particles st)"
  shows "correlation st (centeredCurrent P positions (particles st)) i j
           = foldl (\<lambda>r k. r + vnth (centeredCurrent P positions (particles st) ! k) i
                              * vnth (centeredReference st ! k) j)
                   0 [0..<length (centeredCurrent P positions (particles st))]"
proof -
  have len: "length (centeredCurrent P positions (particles st)) = length (particles st)"
    by (simp add: centeredCurrent_def)
  show ?thesis
    unfolding correlation_def foldl_conv_fold len assms
    by (rule fold_upt_cong) (simp add: centeredReference_def)
qed

lemma code_correlationMatrix:
  assumes "numParticles st = length (particles st)"
  shows "correlationMatrix st (centeredCurrent P positions (particles st))
           = specR (centeredCurrent P positions (particles st)) (centeredReference st)"
  using assms by (simp add: correlationMatrix_def specR_def code_correlation)

lemma code_squaredNorms:
  assumes "numParticles st = length (particles st)"
  shows "squaredNorms st (centeredCurrent P positions (particles st))
           = squaredNormSum (centeredCurrent P positions (particles st)) (centeredReference st)"
proof -
  have len: "length (centeredCurrent P positions (particles st)) = length (particles st)"
    by (simp add: centeredCurrent_def)
  show ?thesis
    unfolding squaredNorms_def squaredNormSum_def foldl_conv_fold len assms
    by (rule fold_upt_cong) (simp add: centeredReference_def)
qed

text \<open>The sixteen assignments build the quaternion matrix, and the nine entries of \<open>U\<close>
  the standard rotation matrix.\<close>

lemma code_Fmatrix: "Fmatrix R = quaternionMatrix R"
  by (simp add: Fmatrix_def quaternionMatrix_def Let_def)

lemma code_rotationMatrix: "rotationMatrix P q = standardRotation P (q ! 0) (q ! 1) (q ! 2) (q ! 3)"
  by (simp add: rotationMatrix_def standardRotation_def Let_def)

lemma code_msd:
  assumes "numParticles st = length (particles st)"
  shows "msdOf P eigen st positions (centroid P positions (particles st))
           = specMsd P eigen st positions"
  unfolding msdOf_def specMsd_def reportedEigenvalue_def specF_def Let_def
    code_centeredPos[OF assms] code_correlationMatrix[OF assms] code_squaredNorms[OF assms]
    code_Fmatrix
  using assms by simp

lemma rotatedRef_transpose: "rotatedRef U p = matVec3 (transpose3 U) p"
  by (simp add: rotatedRef_def matVec3_def transpose3_def)

text \<open>\<open>computeForce\<close> on an object whose selection lies inside its reference array, in
  the specification's quantities.\<close>

lemma computeForce_result:
  assumes n: "numParticles st = length (particles st)"
    and ref: "\<forall>i\<in>set (particles st). 0 \<le> i \<and> i < int (length (referencePos st))"
    and pos: "length positions = length (referencePos st)"
  shows "computeForce P eigen st positions forces =
     (if specMsd P eigen st positions < threshold P then Inr (0, forces)
      else if \<not> selectionInside st (length forces) then Inl OutOfBounds
      else Inr (squareRoot P (specMsd P eigen st positions),
                writeForces P st (centeredCurrent P positions (particles st))
                  (specU P eigen st positions)
                  (squareRoot P (specMsd P eigen st positions)) forces))"
proof -
  have inpos: "\<forall>i\<in>set (particles st). 0 \<le> i \<and> i < int (length positions)"
    using ref pos by simp
  have inside: "selectionInside st (length (referencePos st))"
    using n ref by (simp add: selectionInside_def nat_less_iff)
  show ?thesis
    unfolding computeForce_def code_center(1)[OF n inpos] option.case Let_def
      code_center(2)[OF n inpos] code_msd[OF n] code_centeredPos[OF n]
      code_correlationMatrix[OF n] code_Fmatrix code_rotationMatrix
    using inside
    by (simp add: specU_def reportedQuaternion_def specF_def Let_def)
qed

section \<open>The loop that writes the forces\<close>

lemma fold_update_length:
  "length (fold (\<lambda>i f. f[idx i := h i]) [0..<n] fs) = length fs"
  by (induction n) simp_all

lemma fold_update_other:
  "j \<notin> idx ` {..<n} \<Longrightarrow> fold (\<lambda>i f. f[idx i := h i]) [0..<n] fs ! j = fs ! j"
proof (induction n)
  case 0
  show ?case by simp
next
  case (Suc n)
  then have "j \<noteq> idx n" and "j \<notin> idx ` {..<n}" by (auto simp: lessThan_Suc)
  with Suc.IH show ?case by simp
qed

lemma fold_update_written:
  assumes "inj_on idx {..<n}" and "\<forall>k<n. idx k < length fs" and "k < n"
  shows "fold (\<lambda>i f. f[idx i := h i]) [0..<n] fs ! idx k = h k"
  using assms
proof (induction n)
  case 0
  then show ?case by simp
next
  case (Suc n)
  have inj: "inj_on idx {..<n}" using Suc.prems(1) by (simp add: lessThan_Suc)
  show ?case
  proof (cases "k = n")
    case True
    with Suc.prems(2) show ?thesis by (simp add: fold_update_length)
  next
    case False
    with Suc.prems(3) have k: "k < n" by simp
    have "idx k \<noteq> idx n"
      using Suc.prems(1) k by (auto simp: inj_on_def)
    with Suc.IH[OF inj _ k] Suc.prems(2) show ?thesis by simp
  qed
qed

lemma selection_index_inj:
  assumes "distinct ps" and "\<forall>i\<in>set ps. 0 \<le> (i::int)"
  shows "inj_on (\<lambda>k. nat (ps ! k)) {..<length ps}"
proof (rule inj_onI)
  fix a b assume a: "a \<in> {..<length ps}" and b: "b \<in> {..<length ps}"
    and eq: "nat (ps ! a) = nat (ps ! b)"
  from a b assms(2) have "0 \<le> ps ! a" "0 \<le> ps ! b" by simp_all
  with eq have "ps ! a = ps ! b" by simp
  with a b assms(1) show "a = b" by (simp add: nth_eq_iff_index_eq)
qed

section \<open>\<open>computeForce\<close>: the forces away from the degenerate branch\<close>

text \<open>
  Claim C4, as amended.  Let the particle count be the size of the selection, the
  selection be without duplicates and inside the reference array, and \<open>positions\<close> and
  \<open>forces\<close> have one entry per particle.  Let the code's test \<open>msd < 1e-20\<close> fail (as it
  does when \<open>msd \<ge> 1e-20\<close>), where
  \<open>msd = (\<Sum>\<^sub>k (\<parallel>centeredCurrent[k]\<parallel>\<^sup>2 + \<parallel>centeredReference[k]\<parallel>\<^sup>2) - 2\<lambda>) / N\<close> with the
  solver's \<open>values[3]\<close> for \<open>\<lambda>\<close>.  Then \<open>computeForce\<close> returns \<open>rmsd = sqrt msd\<close> and a
  forces vector of the same length in which, for the \<open>k\<close>-th selected particle, the entry
  at its index is \<open>-(centeredCurrent[k] - U\<^sup>T \<cdot> centeredReference[k]) / (rmsd * N)\<close>, and
  every entry at a non-selected index is the one supplied.  Here \<open>U\<close> is the standard
  rotation matrix of the quaternion in column 3 of the solver's vectors for the quaternion
  matrix of \<open>R\<close>; the code multiplies the reference position by the transpose of \<open>U\<close> (its
  sums run down the columns of \<open>U\<close>).  This holds in the arithmetic of every platform.
\<close>

theorem forces_written:
  assumes n: "numParticles st = length (particles st)"
    and dist: "distinct (particles st)"
    and ref: "\<forall>i\<in>set (particles st). 0 \<le> i \<and> i < int (length (referencePos st))"
    and pos: "length positions = length (referencePos st)"
    and frc: "length forces = length (referencePos st)"
    and msd: "\<not> specMsd P eigen st positions < threshold P"
  shows "\<exists>forces'.
           computeForce P eigen st positions forces
             = Inr (squareRoot P (specMsd P eigen st positions), forces')
           \<and> length forces' = length forces
           \<and> (\<forall>k<length (particles st).
                 forces' ! nat (particles st ! k) =
                   scalarDiv P
                     (vneg (vsub (centeredCurrent P positions (particles st) ! k)
                                 (matVec3 (transpose3 (specU P eigen st positions))
                                          (centeredReference st ! k))))
                     (squareRoot P (specMsd P eigen st positions)
                        * fromInt P (int (length (particles st)))))
           \<and> (\<forall>j<length forces. int j \<notin> set (particles st) \<longrightarrow> forces' ! j = forces ! j)"
proof -
  let ?ps = "particles st"
  let ?cc = "centeredCurrent P positions ?ps"
  let ?U = "specU P eigen st positions"
  let ?rmsd = "squareRoot P (specMsd P eigen st positions)"
  let ?h = "\<lambda>i. scalarDiv P (vneg (vsub (?cc ! i) (rotatedRef ?U (referencePos st ! nat (?ps ! i)))))
                     (?rmsd * fromInt P (int (length ?ps)))"
  let ?idx = "\<lambda>k. nat (?ps ! k)"
  let ?f' = "fold (\<lambda>i f. f[?idx i := ?h i]) [0..<length ?ps] forces"
  have inside: "selectionInside st (length forces)"
    using n ref frc by (simp add: selectionInside_def nat_less_iff)
  have wf: "writeForces P st ?cc ?U ?rmsd forces = ?f'"
    using n by (simp add: writeForces_def)
  have res: "computeForce P eigen st positions forces = Inr (?rmsd, ?f')"
    using msd inside by (simp add: computeForce_result[OF n ref pos] wf)
  have inj: "inj_on ?idx {..<length ?ps}"
    using dist ref by (intro selection_index_inj) simp_all
  have bound: "\<forall>k<length ?ps. ?idx k < length forces"
    using ref frc by (simp add: nat_less_iff)
  have written: "?f' ! nat (?ps ! k) =
      scalarDiv P (vneg (vsub (?cc ! k) (matVec3 (transpose3 ?U) (centeredReference st ! k))))
           (?rmsd * fromInt P (int (length ?ps)))" if "k < length ?ps" for k
    using fold_update_written[OF inj bound that, of ?h] that
    by (simp add: rotatedRef_transpose centeredReference_def)
  have other: "?f' ! j = forces ! j" if "int j \<notin> set ?ps" for j
  proof (rule fold_update_other)
    show "j \<notin> ?idx ` {..<length ?ps}"
    proof
      assume "j \<in> ?idx ` {..<length ?ps}"
      then obtain k where k: "k < length ?ps" "j = nat (?ps ! k)" by auto
      with ref have "int j = ?ps ! k" by simp
      with k(1) that show False by (metis nth_mem)
    qed
  qed
  show ?thesis
    using res written other by (intro exI[of _ ?f']) (simp add: fold_update_length)
qed

section \<open>The examples evaluated\<close>

lemmas eval_defs = exactArithmetic_def Let_def upt_conv_Cons

lemmas cf_defs = computeForce_def msdOf_def centeredPositions_def correlationMatrix_def correlation_def
  Fmatrix_def squaredNorms_def rotationMatrix_def rotatedRef_def writeForces_def selectionInside_def

lemmas spec_defs = specMsd_def reportedEigenvalue_def reportedQuaternion_def specF_def specU_def
  specR_def quaternionMatrix_def standardRotation_def centeredCurrent_def centeredReference_def
  centroid_def squaredNormSum_def

text \<open>The square turned about the axis \<open>(1,1,1)\<close> and doubled: its matrix \<open>F\<close>, the mean
  square deviation and the matrix \<open>U\<close> that \<open>cycleEigen\<close> leads to.  Every number that
  occurs is a small multiple of 1/4.\<close>

lemma square_F:
  "specF exactArithmetic squareImpl squareTurned
     = [[0, 0, 4, 4], [0, 0, 4, 4], [4, 4, 0, 0], [4, 4, 0, 0]]"
  by (simp add: spec_defs eval_defs squareImpl_def squareTurned_def)

lemma square_msd: "specMsd exactArithmetic cycleEigen squareImpl squareTurned = 1"
  by (simp add: spec_defs eval_defs squareImpl_def squareTurned_def cycleEigen_def)

lemma square_U:
  "specU exactArithmetic cycleEigen squareImpl squareTurned = [[0, 0, 1], [1, 0, 0], [0, 1, 0]]"
  by (simp add: specU_def reportedQuaternion_def standardRotation_def cycleEigen_def
        exactArithmetic_def Let_def)

lemma square_forces:
  "computeForce exactArithmetic cycleEigen squareImpl squareTurned (replicate 4 (Vec3 0 0 0))
     = Inr (1, [Vec3 0 0 (- 1 / 4), Vec3 (- 1 / 4) 0 0, Vec3 0 0 (1 / 4), Vec3 (1 / 4) 0 0])"
  by (simp add: cf_defs eval_defs squareImpl_def squareTurned_def cycleEigen_def numeral_eq_Suc)

text \<open>At the turned square the theorem gives the force \<open>(0, 0, -1/4)\<close> on particle 0: it
  pulls the particle at \<open>(0, 0, 2)\<close> towards the turned reference position \<open>(0, 0, 1)\<close>.\<close>

theorem forces_written_witness:
  "computeForce exactArithmetic cycleEigen squareImpl squareTurned (replicate 4 (Vec3 0 0 0))
     = Inr (1, [Vec3 0 0 (- 1 / 4), Vec3 (- 1 / 4) 0 0, Vec3 0 0 (1 / 4), Vec3 (1 / 4) 0 0])
   \<and> scalarDiv exactArithmetic
        (vneg (vsub (centeredCurrent exactArithmetic squareTurned (particles squareImpl) ! 0)
                    (matVec3 (transpose3 (specU exactArithmetic cycleEigen squareImpl squareTurned))
                             (centeredReference squareImpl ! 0))))
        (squareRoot exactArithmetic (specMsd exactArithmetic cycleEigen squareImpl squareTurned)
           * fromInt exactArithmetic (int (length (particles squareImpl))))
       = Vec3 0 0 (- 1 / 4)"
proof -
  let ?frc = "replicate 4 (Vec3 0 0 0 :: real Vec3)"
  have "\<exists>forces'.
           computeForce exactArithmetic cycleEigen squareImpl squareTurned ?frc
             = Inr (squareRoot exactArithmetic (specMsd exactArithmetic cycleEigen squareImpl squareTurned),
                    forces')
           \<and> length forces' = length ?frc
           \<and> (\<forall>k<length (particles squareImpl).
                 forces' ! nat (particles squareImpl ! k) =
                   scalarDiv exactArithmetic
                     (vneg (vsub (centeredCurrent exactArithmetic squareTurned (particles squareImpl) ! k)
                                 (matVec3 (transpose3 (specU exactArithmetic cycleEigen squareImpl squareTurned))
                                          (centeredReference squareImpl ! k))))
                     (squareRoot exactArithmetic (specMsd exactArithmetic cycleEigen squareImpl squareTurned)
                        * fromInt exactArithmetic (int (length (particles squareImpl)))))
           \<and> (\<forall>j<length ?frc. int j \<notin> set (particles squareImpl) \<longrightarrow> forces' ! j = ?frc ! j)"
  proof (rule forces_written)
    show "numParticles squareImpl = length (particles squareImpl)" by (simp add: squareImpl_def)
    show "distinct (particles squareImpl)" by (simp add: squareImpl_def)
    show "\<forall>i\<in>set (particles squareImpl). 0 \<le> i \<and> i < int (length (referencePos squareImpl))"
      by (simp add: squareImpl_def)
    show "length squareTurned = length (referencePos squareImpl)"
      by (simp add: squareImpl_def squareTurned_def)
    show "length ?frc = length (referencePos squareImpl)" by (simp add: squareImpl_def)
    show "\<not> specMsd exactArithmetic cycleEigen squareImpl squareTurned < threshold exactArithmetic"
      unfolding square_msd by (simp add: exactArithmetic_def)
  qed
  then obtain forces' where
    res: "computeForce exactArithmetic cycleEigen squareImpl squareTurned ?frc
             = Inr (squareRoot exactArithmetic (specMsd exactArithmetic cycleEigen squareImpl squareTurned),
                    forces')"
    and at0: "forces' ! nat (particles squareImpl ! 0) =
                   scalarDiv exactArithmetic
                     (vneg (vsub (centeredCurrent exactArithmetic squareTurned (particles squareImpl) ! 0)
                                 (matVec3 (transpose3 (specU exactArithmetic cycleEigen squareImpl squareTurned))
                                          (centeredReference squareImpl ! 0))))
                     (squareRoot exactArithmetic (specMsd exactArithmetic cycleEigen squareImpl squareTurned)
                        * fromInt exactArithmetic (int (length (particles squareImpl))))"
    by (auto simp: squareImpl_def)
  from res square_forces
  have "forces' = [Vec3 0 0 (- 1 / 4), Vec3 (- 1 / 4) 0 0, Vec3 0 0 (1 / 4), Vec3 (1 / 4) 0 0]"
    by simp
  with at0 square_forces show ?thesis by (simp add: squareImpl_def)
qed

text \<open>The claim as stated, with the product \<open>U \<cdot> centeredReference\<close>, fails at the turned
  square.  The mean square deviation is 1, the quaternion is an eigenvector of \<open>F\<close> for
  the eigenvalue 8, the code writes \<open>(0, 0, -1/4)\<close> at index 0, and the claim's formula
  evaluates to \<open>(0, 1/4, -1/2)\<close>.\<close>

theorem rotation_product_counterexample:
  "computeForce exactArithmetic cycleEigen squareImpl squareTurned (replicate 4 (Vec3 0 0 0))
     = Inr (1, [Vec3 0 0 (- 1 / 4), Vec3 (- 1 / 4) 0 0, Vec3 0 0 (1 / 4), Vec3 (1 / 4) 0 0])
   \<and> specMsd exactArithmetic cycleEigen squareImpl squareTurned = 1
   \<and> matVec (specF exactArithmetic squareImpl squareTurned)
            (reportedQuaternion exactArithmetic cycleEigen squareImpl squareTurned)
       = map ((*) 8) (reportedQuaternion exactArithmetic cycleEigen squareImpl squareTurned)
   \<and> scalarDiv exactArithmetic
        (vneg (vsub (centeredCurrent exactArithmetic squareTurned (particles squareImpl) ! 0)
                    (matVec3 (specU exactArithmetic cycleEigen squareImpl squareTurned)
                             (centeredReference squareImpl ! 0))))
        (squareRoot exactArithmetic (specMsd exactArithmetic cycleEigen squareImpl squareTurned)
           * fromInt exactArithmetic (int (length (particles squareImpl))))
       = Vec3 0 (1 / 4) (- 1 / 2)"
proof (intro conjI)
  show "computeForce exactArithmetic cycleEigen squareImpl squareTurned (replicate 4 (Vec3 0 0 0))
     = Inr (1, [Vec3 0 0 (- 1 / 4), Vec3 (- 1 / 4) 0 0, Vec3 0 0 (1 / 4), Vec3 (1 / 4) 0 0])"
    by (rule square_forces)
  show "specMsd exactArithmetic cycleEigen squareImpl squareTurned = 1" by (rule square_msd)
  show "matVec (specF exactArithmetic squareImpl squareTurned)
            (reportedQuaternion exactArithmetic cycleEigen squareImpl squareTurned)
       = map ((*) 8) (reportedQuaternion exactArithmetic cycleEigen squareImpl squareTurned)"
    unfolding square_F by (simp add: reportedQuaternion_def cycleEigen_def matVec_def Let_def)
  show "scalarDiv exactArithmetic
        (vneg (vsub (centeredCurrent exactArithmetic squareTurned (particles squareImpl) ! 0)
                    (matVec3 (specU exactArithmetic cycleEigen squareImpl squareTurned)
                             (centeredReference squareImpl ! 0))))
        (squareRoot exactArithmetic (specMsd exactArithmetic cycleEigen squareImpl squareTurned)
           * fromInt exactArithmetic (int (length (particles squareImpl))))
       = Vec3 0 (1 / 4) (- 1 / 2)"
    unfolding square_U square_msd
    by (simp add: centeredCurrent_def centeredReference_def centroid_def matVec3_def
          squareImpl_def squareTurned_def exactArithmetic_def)
qed

section \<open>\<open>computeForce\<close>: the energy\<close>


text \<open>The pair pulled apart to three times its length: \<open>F\<close> is diagonal, \<open>diagonalEigen\<close>
  reports \<open>3/2\<close>, the mean square deviation is 1 and so is the energy.\<close>

lemma pair_F:
  "specF exactArithmetic pairImpl [Vec3 0 0 0, Vec3 3 0 0]
     = [[3 / 2, 0, 0, 0], [0, 3 / 2, 0, 0], [0, 0, - (3 / 2), 0], [0, 0, 0, - (3 / 2)]]"
  by (simp add: spec_defs eval_defs pairImpl_def)



section \<open>The energy in exact arithmetic\<close>







text \<open>The two stand-ins are exact solvers on the matrices of the examples.\<close>

lemma length4E:
  assumes "length (v::real list) = 4"
  obtains a b c d where "v = [a, b, c, d]"
  using assms by (auto simp: numeral_eq_Suc length_Suc_conv)

lemma largestEigenvalue_diag:
  assumes "d1 \<le> d0" "d2 \<le> d0" "d3 \<le> d0"
  shows "largestEigenvalue [[d0, 0, 0, 0], [0, d1, 0, 0], [0, 0, d2, 0], [0, 0, 0, d3]] d0"
  unfolding largestEigenvalue_def
proof (intro conjI allI impI)
  let ?A = "[[d0, 0, 0, 0], [0, d1, 0, 0], [0, 0, d2, 0], [0, 0, 0, d3]]"
  show "eigenvalueOf ?A d0"
    unfolding eigenvalueOf_def
    by (rule exI[of _ "[1, 0, 0, 0]"]) (simp add: matVec_def)
  fix mu assume "eigenvalueOf ?A mu"
  then obtain v where len': "length v = length ?A" and nz: "\<exists>x\<in>set v. x \<noteq> 0"
    and ev: "matVec ?A v = map ((*) mu) v"
    unfolding eigenvalueOf_def by blast
  from len' have len: "length v = 4" by simp
  from len obtain a b c d where v: "v = [a, b, c, d]" by (rule length4E)
  from ev have eqs: "d0 * a = mu * a" "d1 * b = mu * b" "d2 * c = mu * c" "d3 * d = mu * d"
    by (simp_all add: v matVec_def)
  from nz consider "a \<noteq> 0" | "b \<noteq> 0" | "c \<noteq> 0" | "d \<noteq> 0" by (auto simp: v)
  then show "mu \<le> d0"
  proof cases
    case 1 with eqs(1) show ?thesis by simp
  next
    case 2 with eqs(2) assms(1) show ?thesis by simp
  next
    case 3 with eqs(3) assms(2) show ?thesis by simp
  next
    case 4 with eqs(4) assms(3) show ?thesis by simp
  qed
qed

lemma largestEigenvalue_cycle:
  "largestEigenvalue [[0, 0, 4, 4], [0, 0, 4, 4], [4, 4, 0, 0], [4, 4, 0, 0]] 8"
  unfolding largestEigenvalue_def
proof (intro conjI allI impI)
  let ?A = "[[0, 0, 4, 4], [0, 0, 4, 4], [4, 4, 0, 0], [4, 4, 0, 0 :: real]]"
  show "eigenvalueOf ?A 8"
    unfolding eigenvalueOf_def
    by (rule exI[of _ "[1, 1, 1, 1]"]) (simp add: matVec_def)
  fix mu assume "eigenvalueOf ?A mu"
  then obtain v where len': "length v = length ?A" and nz: "\<exists>x\<in>set v. x \<noteq> 0"
    and ev: "matVec ?A v = map ((*) mu) v"
    unfolding eigenvalueOf_def by blast
  from len' have len: "length v = 4" by simp
  from len obtain a b c d where v: "v = [a, b, c, d]" by (rule length4E)
  have eqs: "4 * c + 4 * d = mu * a" "4 * c + 4 * d = mu * b"
    "4 * a + 4 * b = mu * c" "4 * a + 4 * b = mu * d"
    using arg_cong[OF ev, of "\<lambda>l. l ! 0"] arg_cong[OF ev, of "\<lambda>l. l ! 1"]
      arg_cong[OF ev, of "\<lambda>l. l ! 2"] arg_cong[OF ev, of "\<lambda>l. l ! 3"]
    unfolding v matVec_def by (simp_all add: numeral_eq_Suc)
  show "mu \<le> 8"
  proof (rule ccontr)
    assume "\<not> mu \<le> 8"
    then have big: "8 < mu" by simp
    then have nz0: "mu \<noteq> 0" by simp
    have "mu * a = mu * b" by (rule trans[OF eqs(1)[symmetric] eqs(2)])
    with nz0 have ab: "b = a" by simp
    have "mu * c = mu * d" by (rule trans[OF eqs(3)[symmetric] eqs(4)])
    with nz0 have cd: "d = c" by simp
    from eqs(1) cd have e1: "mu * a = 8 * c" by simp
    from eqs(3) ab have e2: "mu * c = 8 * a" by simp
    have "mu * mu * a = mu * (8 * c)" using e1 by simp
    also have "\<dots> = 8 * (mu * c)" by simp
    also have "\<dots> = 64 * a" using e2 by simp
    finally have "(mu * mu - 64) * a = 0" by (simp add: algebra_simps)
    moreover have "64 < mu * mu"
      using big mult_strict_mono[of 8 mu 8 mu] by simp
    ultimately have a: "a = 0" by simp
    with e2 nz0 have "c = 0" by simp
    with a ab cd nz show False by (simp add: v)
  qed
qed

lemma square_largestEigenvalue:
  "largestEigenvalue (specF exactArithmetic squareImpl squareTurned)
     (reportedEigenvalue exactArithmetic cycleEigen squareImpl squareTurned)"
  unfolding reportedEigenvalue_def square_F
  using largestEigenvalue_cycle by (simp add: cycleEigen_def)

lemma pair_largestEigenvalue:
  "largestEigenvalue (specF exactArithmetic pairImpl [Vec3 0 0 0, Vec3 3 0 0])
     (reportedEigenvalue exactArithmetic diagonalEigen pairImpl [Vec3 0 0 0, Vec3 3 0 0])"
proof -
  have "largestEigenvalue [[3 / 2, 0, 0, 0], [0, 3 / 2, 0, 0], [0, 0, - (3 / 2), 0], [0, 0, 0, - (3 / 2)]]
          (3 / 2 :: real)"
    by (rule largestEigenvalue_diag) simp_all
  then show ?thesis
    unfolding reportedEigenvalue_def pair_F by (simp add: diagonalEigen_def)
qed

section \<open>\<open>computeForce\<close>: the degenerate branch\<close>

text \<open>When the test \<open>msd < 1e-20\<close> succeeds the code returns 0 at once: the forces vector
  is the one supplied, whatever it holds.\<close>

lemma computeForce_degenerate:
  assumes "numParticles st = length (particles st)"
    and "\<forall>i\<in>set (particles st). 0 \<le> i \<and> i < int (length (referencePos st))"
    and "length positions = length (referencePos st)"
    and "specMsd P eigen st positions < threshold P"
  shows "computeForce P eigen st positions forces = Inr (0, forces)"
  using assms(4) by (simp add: computeForce_result[OF assms(1-3)])

text \<open>
  Claim C1 (the code departs from it).  The claim asks for \<open>rmsd = 0\<close> and zero forces at
  the selected indices whenever \<open>msd < 1e-20\<close>.  The code returns 0 but does not write the
  forces.  With the pair selected: an evaluation at the positions \<open>(0,0,0), (3,0,0)\<close>
  writes the forces \<open>(1/2,0,0), (-1/2,0,0)\<close>; an evaluation at the reference itself,
  \<open>(0,0,0), (1,0,0)\<close>, on the same forces vector has \<open>msd = 0\<close>, returns 0 and leaves
  \<open>(1/2,0,0), (-1/2,0,0)\<close> at the two selected indices.
\<close>

theorem degenerate_branch_keeps_forces:
  "computeForce exactArithmetic diagonalEigen pairImpl [Vec3 0 0 0, Vec3 3 0 0] [Vec3 0 0 0, Vec3 0 0 0]
     = Inr (1, [Vec3 (1 / 2) 0 0, Vec3 (- 1 / 2) 0 0])
   \<and> specMsd exactArithmetic diagonalEigen pairImpl [Vec3 0 0 0, Vec3 1 0 0] = 0
   \<and> computeForce exactArithmetic diagonalEigen pairImpl [Vec3 0 0 0, Vec3 1 0 0]
        [Vec3 (1 / 2) 0 0, Vec3 (- 1 / 2) 0 0]
     = Inr (0, [Vec3 (1 / 2) 0 0, Vec3 (- 1 / 2) 0 0])"
  by (simp add: cf_defs spec_defs eval_defs pairImpl_def diagonalEigen_def)

end
